theory Spec2Isabelle
  imports Main "HOL-Library.Word"
begin

unbundle bit_operations_syntax

section \<open>The Python bindings of the UUID generator\<close>

text \<open>
  The development embeds \<^verbatim>\<open>src/bindings/python/uuid_generator.py\<close>: the wrapper
  classes \<^verbatim>\<open>UuidGenerator\<close> and \<^verbatim>\<open>Uuid\<close> and the module-level convenience functions.
  The wrapper calls a native library through \<^verbatim>\<open>ctypes\<close>; the four exported functions of
  that library are not part of the sources at hand and are modelled from the
  specification (section \<open>The native library\<close>).

  Bytes are \<open>8 word\<close>, a \<^verbatim>\<open>bytes\<close> value is a list of them, Python integers are \<open>int\<close>.
  A raised exception is the left summand of a result.
\<close>

type_synonym u8 = "8 word"

subsection \<open>Exceptions\<close>

text \<open>
  The four subclasses of \<^verbatim>\<open>UuidError\<close>, each constructed by \<^verbatim>\<open>_check_error\<close> with the
  message \<^verbatim>\<open>f"UUID operation failed with error code {result}"\<close>: the constructor
  argument is that \<^verbatim>\<open>result\<close>. The built-in exceptions carry their message.
\<close>

datatype py_exception =
    EntropyError int
  | InvalidParameterError int
  | BufferTooSmallError int
  | UnknownError int
  | ValueError string
  | FileNotFoundError string
  | OSError string
  | AttributeError string
  | IndexError string
  | UnicodeDecodeError

text \<open>\<^verbatim>\<open>ERROR_CODES\<close>: a dictionary from status codes to exception classes.\<close>

definition ERROR_CODES :: "int \<rightharpoonup> (int \<Rightarrow> py_exception)" where
  "ERROR_CODES = [1 \<mapsto> EntropyError, 2 \<mapsto> InvalidParameterError,
                  3 \<mapsto> BufferTooSmallError, 99 \<mapsto> UnknownError]"

text \<open>\<^verbatim>\<open>dict.get(key, default)\<close>.\<close>

definition dict_get :: "('k \<rightharpoonup> 'v) \<Rightarrow> 'k \<Rightarrow> 'v \<Rightarrow> 'v" where
  "dict_get d k dflt = (case d k of None \<Rightarrow> dflt | Some v \<Rightarrow> v)"

text \<open>\<^verbatim>\<open>UuidGenerator._check_error\<close>: returns normally on 0, raises otherwise.\<close>

definition check_error :: "int \<Rightarrow> py_exception + unit" where
  "check_error result =
     (if result \<noteq> 0
      then (let error_class = dict_get ERROR_CODES result UnknownError
            in Inl (error_class result))
      else Inr ())"

subsection \<open>The foreign-call boundary\<close>

text \<open>
  \<^verbatim>\<open>ctypes.c_uint8 * 16\<close> applied to the unpacked \<open>bs\<close>: an array of exactly 16 bytes.
  More than 16 initialisers raise \<^verbatim>\<open>IndexError\<close>; fewer leave the rest zero.
\<close>

definition c_uint8_array16 :: "u8 list \<Rightarrow> py_exception + u8 list" where
  "c_uint8_array16 bs =
     (if 16 < length bs then Inl (IndexError ''invalid index'')
      else Inr (bs @ replicate (16 - length bs) 0))"

text \<open>
  \<^verbatim>\<open>ctypes.create_string_buffer(n)\<close> is \<open>n\<close> zero bytes, and its \<^verbatim>\<open>.value\<close> the bytes
  before the first zero byte.
\<close>

definition NUL :: char where
  "NUL = CHR 0x00"

definition create_string_buffer :: "nat \<Rightarrow> char list" where
  "create_string_buffer n = replicate n NUL"

definition buffer_value :: "char list \<Rightarrow> char list" where
  "buffer_value buf = takeWhile (\<lambda>c. c \<noteq> NUL) buf"

text \<open>
  \<^verbatim>\<open>.decode('utf-8')\<close>. Only the ASCII fragment is modelled: bytes below \<open>0x80\<close> decode
  to themselves. A buffer holding a larger byte is reported as a decoding error here,
  although Python would accept a well-formed multi-byte sequence; no statement below
  rests on that branch.
\<close>

definition decode_utf8 :: "char list \<Rightarrow> py_exception + string" where
  "decode_utf8 bs =
     (if list_all (\<lambda>c. (of_char c :: nat) < 128) bs then Inr bs else Inl UnicodeDecodeError)"

text \<open>
  The calls that cross the boundary are recorded, in order, with the buffers passed:
  the record is what ``invoking the library'' means below.
\<close>

datatype lib_call =
    Call_generate_v4
  | Call_to_string "u8 list" nat
  | Call_get_info "u8 list"
  | Call_compare "u8 list" "u8 list"

section \<open>The native library\<close>

text \<open>
  What the operating system's entropy source answers to one request: a failure, or
  sixteen bytes (read at the indices 0 to 15).
\<close>

datatype entropy = EntropyFailure | EntropyBytes "nat \<Rightarrow> u8"

text \<open>
  Modelled from the spec: the Generate operation of the identifier codec, whose code
  (the native library) is not among the sources. ``Overwrites byte 6's high nibble with
  0100, overwrites byte 8's top two bits with 10, leaves all other bits untouched.''
\<close>

definition impose_version_variant :: "u8 list \<Rightarrow> u8 list" where
  "impose_version_variant b =
     b[6 := (b ! 6 AND 0x0F) OR 0x40, 8 := (b ! 8 AND 0x3F) OR 0x80]"

text \<open>
  Modelled from the spec: the exported function \<^verbatim>\<open>uuid_generate_v4(out_buffer)\<close> of the
  native library, which is not among the sources. It fills the buffer with a newly
  generated identifier and returns status 0, or returns status 1 (entropy failure)
  and leaves the buffer alone.
\<close>

definition uuid_generate_v4 :: "entropy \<Rightarrow> u8 list \<Rightarrow> int \<times> u8 list" where
  "uuid_generate_v4 rnd out_buffer =
     (case rnd of
        EntropyFailure \<Rightarrow> (1, out_buffer)
      | EntropyBytes r \<Rightarrow> (0, impose_version_variant (map r [0..<16])))"

text \<open>
  Modelled from the spec: the canonical string form, produced by the native library
  that is not among the sources. ``32 lowercase hexadecimal digits grouped 8-4-4-4-12
  separated by hyphens'', each byte giving two digits, high nibble first.
\<close>

definition hex_digit :: "u8 \<Rightarrow> char" where
  "hex_digit n = ''0123456789abcdef'' ! unat n"

definition hex_byte :: "u8 \<Rightarrow> string" where
  "hex_byte b = [hex_digit (drop_bit 4 b), hex_digit (b AND 0x0F)]"

definition hex_string :: "u8 list \<Rightarrow> string" where
  "hex_string bs = concat (map hex_byte bs)"

definition canonical_string :: "u8 list \<Rightarrow> string" where
  "canonical_string b =
     hex_string (take 4 b) @ ''-'' @ hex_string (take 2 (drop 4 b)) @ ''-'' @
     hex_string (take 2 (drop 6 b)) @ ''-'' @ hex_string (take 2 (drop 8 b)) @ ''-'' @
     hex_string (take 6 (drop 10 b))"

text \<open>
  Modelled from the spec: the exported function
  \<^verbatim>\<open>uuid_to_string(in_buffer, out_string, out_capacity)\<close> of the native library, which is
  not among the sources. It ``fails BufferTooSmall if out_capacity < 37 (36 characters
  + terminator)'' and writes nothing then; otherwise it writes the canonical string and
  its terminator at the start of the output buffer.
\<close>

definition uuid_to_string :: "u8 list \<Rightarrow> char list \<Rightarrow> nat \<Rightarrow> int \<times> char list" where
  "uuid_to_string in_buffer out_string out_capacity =
     (if out_capacity < 37 then (3, out_string)
      else (0, canonical_string in_buffer @ [NUL] @ drop 37 out_string))"

text \<open>
  Modelled from the spec: the exported function
  \<^verbatim>\<open>uuid_get_info(in_buffer, out_version, out_variant)\<close> of the native library, which is
  not among the sources. The version is ``bits 48-51 (the high nibble of byte 6)'', the
  variant is read from ``the top two bits of byte 8'', so that the value 2 denotes the
  RFC 4122 family. The result is the status with the two output parameters.
\<close>

definition uuid_get_info :: "u8 list \<Rightarrow> int \<times> u8 \<times> u8" where
  "uuid_get_info in_buffer = (0, drop_bit 4 (in_buffer ! 6), drop_bit 6 (in_buffer ! 8))"

text \<open>
  Modelled from the spec: the exported function \<^verbatim>\<open>uuid_compare(a, b, out_equal)\<close> of the
  native library, which is not among the sources. It ``writes 1 if equal, 0 otherwise'',
  equal meaning that ``all 16 bytes are pairwise equal''.
\<close>

definition uuid_compare :: "u8 list \<Rightarrow> u8 list \<Rightarrow> int \<times> u8" where
  "uuid_compare a b = (0, if list_all (\<lambda>i. a ! i = b ! i) [0..<16] then 1 else 0)"

section \<open>The wrapper classes\<close>

subsection \<open>Locating and loading the library\<close>

text \<open>
  Paths are kept symbolic: \<^verbatim>\<open>current_dir / rel\<close> is \<open>In_module_dir rel\<close>, \<^verbatim>\<open>Path(rel)\<close> is
  \<open>In_cwd rel\<close>, and a path string handed in by the caller is \<open>Given\<close>. The environment
  says which platform the interpreter runs on, which paths exist, which of them
  \<^verbatim>\<open>ctypes.CDLL\<close> loads, and which symbols a loaded library exports.
\<close>

datatype path = In_module_dir string | In_cwd string | Given string

record env =
  platform :: string
  path_exists :: "path \<Rightarrow> bool"
  cdll_loads :: "path \<Rightarrow> bool"
  cdll_exports :: "path \<Rightarrow> string \<Rightarrow> bool"

definition possible_paths :: "string \<Rightarrow> path list" where
  "possible_paths plat =
     [In_module_dir ''../../target/release/libuuid_generator.so'',
      In_module_dir ''../../target/debug/libuuid_generator.so'',
      In_module_dir ''libuuid_generator.so'',
      In_cwd ''./libuuid_generator.so'',
      In_cwd ''./target/release/libuuid_generator.so'']
     @ (if plat = ''darwin'' then
          [In_module_dir ''../../target/release/libuuid_generator.dylib'',
           In_module_dir ''../../target/debug/libuuid_generator.dylib'',
           In_module_dir ''libuuid_generator.dylib'']
        else if plat = ''win32'' then
          [In_module_dir ''../../target/release/uuid_generator.dll'',
           In_module_dir ''../../target/debug/uuid_generator.dll'',
           In_module_dir ''uuid_generator.dll'']
        else [])"

text \<open>The message of the \<^verbatim>\<open>FileNotFoundError\<close> that \<^verbatim>\<open>_find_library\<close> raises.\<close>

definition library_not_found :: string where
  "library_not_found =
     ''Could not find UUID generator library. '' @
     ''Please build the Rust library first with '' @
     [CHR 0x27] @ ''cargo build --release'' @ [CHR 0x27]"

definition find_library :: "env \<Rightarrow> py_exception + path" where
  "find_library e =
     (case List.find (path_exists e) (possible_paths (platform e)) of
        Some p \<Rightarrow> Inr p
      | None \<Rightarrow> Inl (FileNotFoundError library_not_found))"

text \<open>
  \<^verbatim>\<open>_setup_functions\<close> looks the four exported functions up in the loaded library, in
  this order; the first one missing raises \<^verbatim>\<open>AttributeError\<close>.
\<close>

definition setup_functions :: "env \<Rightarrow> path \<Rightarrow> py_exception + unit" where
  "setup_functions e p =
     (case List.find (\<lambda>name. \<not> cdll_exports e p name)
             [''uuid_generate_v4'', ''uuid_to_string'', ''uuid_get_info'', ''uuid_compare''] of
        Some name \<Rightarrow> Inl (AttributeError name)
      | None \<Rightarrow> Inr ())"

subsection \<open>Objects and the module's state\<close>

text \<open>
  A \<^verbatim>\<open>UuidGenerator\<close> object: its identity (objects are numbered as they are
  constructed) and the library it loaded. A \<^verbatim>\<open>Uuid\<close> object holds \<^verbatim>\<open>_bytes\<close> and
  \<^verbatim>\<open>_generator\<close>.
\<close>

record UuidGenerator =
  obj_id :: nat
  lib :: path

record Uuid =
  bytes :: "u8 list"
  generator :: UuidGenerator

text \<open>
  The state the functions act on: the module global \<^verbatim>\<open>_default_generator\<close>, the number
  of \<^verbatim>\<open>UuidGenerator\<close> objects constructed so far, and the library calls made so far.
\<close>

record world =
  default_generator :: "UuidGenerator option"
  constructed :: nat
  lib_calls :: "lib_call list"

definition called :: "lib_call \<Rightarrow> world \<Rightarrow> world" where
  "called c w = w\<lparr>lib_calls := lib_calls w @ [c]\<rparr>"

subsection \<open>\<^verbatim>\<open>UuidGenerator\<close>\<close>

text \<open>
  \<^verbatim>\<open>UuidGenerator.__init__\<close>: \<^verbatim>\<open>_find_library\<close> when no path is given, then
  \<^verbatim>\<open>ctypes.CDLL\<close> (which raises \<^verbatim>\<open>OSError\<close> for a file it cannot load), then
  \<^verbatim>\<open>_setup_functions\<close>. An object counts as constructed when all three went through.
\<close>

definition UuidGenerator_init ::
  "env \<Rightarrow> path option \<Rightarrow> world \<Rightarrow> (py_exception + UuidGenerator) \<times> world" where
  "UuidGenerator_init e library_path w =
     (case (case library_path of None \<Rightarrow> find_library e | Some p \<Rightarrow> Inr p) of
        Inl ex \<Rightarrow> (Inl ex, w)
      | Inr p \<Rightarrow>
          if cdll_loads e p
          then (case setup_functions e p of
                  Inl ex \<Rightarrow> (Inl ex, w)
                | Inr _ \<Rightarrow>
                    (Inr \<lparr>obj_id = constructed w, lib = p\<rparr>,
                     w\<lparr>constructed := Suc (constructed w)\<rparr>))
          else (Inl (OSError ''cannot load library''), w))"

text \<open>\<^verbatim>\<open>Uuid.__init__\<close>.\<close>

definition Uuid_init :: "u8 list \<Rightarrow> UuidGenerator \<Rightarrow> py_exception + Uuid" where
  "Uuid_init uuid_bytes g =
     (if length uuid_bytes \<noteq> 16 then Inl (ValueError ''UUID bytes must be exactly 16 bytes'')
      else Inr \<lparr>bytes = uuid_bytes, generator = g\<rparr>)"

text \<open>\<^verbatim>\<open>UuidGenerator.generate\<close>; \<open>rnd\<close> is what the entropy source answers during the call.\<close>

definition generate :: "UuidGenerator \<Rightarrow> entropy \<Rightarrow> world \<Rightarrow> (py_exception + Uuid) \<times> world" where
  "generate self rnd w =
     (let uuid_bytes = replicate 16 0;
          (result, uuid_bytes') = uuid_generate_v4 rnd uuid_bytes;
          w' = called Call_generate_v4 w
      in case check_error result of
           Inl ex \<Rightarrow> (Inl ex, w')
         | Inr _ \<Rightarrow> (Uuid_init uuid_bytes' self, w'))"

text \<open>\<^verbatim>\<open>UuidGenerator.from_bytes\<close>.\<close>

definition from_bytes :: "UuidGenerator \<Rightarrow> u8 list \<Rightarrow> world \<Rightarrow> (py_exception + Uuid) \<times> world" where
  "from_bytes self uuid_bytes w =
     (if length uuid_bytes \<noteq> 16 then (Inl (ValueError ''UUID bytes must be exactly 16 bytes''), w)
      else (Uuid_init uuid_bytes self, w))"

subsection \<open>\<^verbatim>\<open>Uuid\<close>\<close>

text \<open>\<^verbatim>\<open>Uuid.__str__\<close>.\<close>

definition Uuid_str :: "Uuid \<Rightarrow> world \<Rightarrow> (py_exception + string) \<times> world" where
  "Uuid_str self w =
     (case c_uint8_array16 (bytes self) of
        Inl ex \<Rightarrow> (Inl ex, w)
      | Inr uuid_array \<Rightarrow>
          (let buffer = create_string_buffer 37;
               (result, buffer') = uuid_to_string uuid_array buffer (length buffer);
               w' = called (Call_to_string uuid_array (length buffer)) w
           in case check_error result of
                Inl ex \<Rightarrow> (Inl ex, w')
              | Inr _ \<Rightarrow> (decode_utf8 (buffer_value buffer'), w')))"

text \<open>\<^verbatim>\<open>Uuid.__repr__\<close>.\<close>

definition Uuid_repr :: "Uuid \<Rightarrow> world \<Rightarrow> (py_exception + string) \<times> world" where
  "Uuid_repr self w =
     (case Uuid_str self w of
        (Inl ex, w') \<Rightarrow> (Inl ex, w')
      | (Inr s, w') \<Rightarrow> (Inr (''Uuid('' @ [CHR 0x27] @ s @ [CHR 0x27] @ '')''), w'))"

text \<open>
  \<^verbatim>\<open>Uuid.__eq__\<close>. The other operand is any Python object; \<^verbatim>\<open>isinstance(other, Uuid)\<close>
  holds for the \<open>PyUuid\<close> objects only (the module defines no subclass of \<^verbatim>\<open>Uuid\<close>).
\<close>

datatype py_object =
    PyUuid Uuid
  | PyNone
  | PyInt int
  | PyStr string
  | PyBytes "u8 list"

fun isinstance_Uuid :: "py_object \<Rightarrow> bool" where
  "isinstance_Uuid (PyUuid u) = True"
| "isinstance_Uuid x = False"

definition Uuid_eq :: "Uuid \<Rightarrow> py_object \<Rightarrow> world \<Rightarrow> (py_exception + bool) \<times> world" where
  "Uuid_eq self other w =
     (case other of
        PyUuid other_uuid \<Rightarrow>
          (case c_uint8_array16 (bytes self) of
             Inl ex \<Rightarrow> (Inl ex, w)
           | Inr uuid1_array \<Rightarrow>
               (case c_uint8_array16 (bytes other_uuid) of
                  Inl ex \<Rightarrow> (Inl ex, w)
                | Inr uuid2_array \<Rightarrow>
                    (let (result, are_equal) = uuid_compare uuid1_array uuid2_array;
                         w' = called (Call_compare uuid1_array uuid2_array) w
                     in case check_error result of
                          Inl ex \<Rightarrow> (Inl ex, w')
                        | Inr _ \<Rightarrow> (Inr (are_equal \<noteq> 0), w'))))
      | _ \<Rightarrow> (Inr False, w))"

text \<open>
  \<^verbatim>\<open>Uuid.__hash__\<close>. Python's built-in \<^verbatim>\<open>hash\<close> on \<^verbatim>\<open>bytes\<close> is a parameter: within one
  interpreter it is a function of the bytes.
\<close>

definition Uuid_hash :: "(u8 list \<Rightarrow> int) \<Rightarrow> Uuid \<Rightarrow> int" where
  "Uuid_hash py_hash self = py_hash (bytes self)"

text \<open>\<^verbatim>\<open>Uuid.version\<close>, \<^verbatim>\<open>Uuid.variant\<close> and \<^verbatim>\<open>Uuid.info\<close>.\<close>

definition version :: "Uuid \<Rightarrow> world \<Rightarrow> (py_exception + int) \<times> world" where
  "version self w =
     (case c_uint8_array16 (bytes self) of
        Inl ex \<Rightarrow> (Inl ex, w)
      | Inr uuid_array \<Rightarrow>
          (let (result, version_out, variant_out) = uuid_get_info uuid_array;
               w' = called (Call_get_info uuid_array) w
           in case check_error result of
                Inl ex \<Rightarrow> (Inl ex, w')
              | Inr _ \<Rightarrow> (Inr (uint version_out), w')))"

definition variant :: "Uuid \<Rightarrow> world \<Rightarrow> (py_exception + int) \<times> world" where
  "variant self w =
     (case c_uint8_array16 (bytes self) of
        Inl ex \<Rightarrow> (Inl ex, w)
      | Inr uuid_array \<Rightarrow>
          (let (result, version_out, variant_out) = uuid_get_info uuid_array;
               w' = called (Call_get_info uuid_array) w
           in case check_error result of
                Inl ex \<Rightarrow> (Inl ex, w')
              | Inr _ \<Rightarrow> (Inr (uint variant_out), w')))"

definition info :: "Uuid \<Rightarrow> world \<Rightarrow> (py_exception + int \<times> int) \<times> world" where
  "info self w =
     (case version self w of
        (Inl ex, w') \<Rightarrow> (Inl ex, w')
      | (Inr ver, w') \<Rightarrow>
          (case variant self w' of
             (Inl ex, w'') \<Rightarrow> (Inl ex, w'')
           | (Inr var, w'') \<Rightarrow> (Inr (ver, var), w'')))"

subsection \<open>Module-level convenience functions\<close>

text \<open>\<^verbatim>\<open>get_generator\<close>, run by one thread from start to end.\<close>

definition get_generator :: "env \<Rightarrow> world \<Rightarrow> (py_exception + UuidGenerator) \<times> world" where
  "get_generator e w =
     (case default_generator w of
        None \<Rightarrow>
          (case UuidGenerator_init e None w of
             (Inl ex, w') \<Rightarrow> (Inl ex, w')
           | (Inr g, w') \<Rightarrow> (Inr g, w'\<lparr>default_generator := Some g\<rparr>))
      | Some g \<Rightarrow> (Inr g, w))"

text \<open>\<^verbatim>\<open>uuid4\<close> and the module-level \<^verbatim>\<open>from_bytes\<close>.\<close>

definition uuid4 :: "env \<Rightarrow> entropy \<Rightarrow> world \<Rightarrow> (py_exception + Uuid) \<times> world" where
  "uuid4 e rnd w =
     (case get_generator e w of
        (Inl ex, w') \<Rightarrow> (Inl ex, w')
      | (Inr g, w') \<Rightarrow> generate g rnd w')"

definition module_from_bytes :: "env \<Rightarrow> u8 list \<Rightarrow> world \<Rightarrow> (py_exception + Uuid) \<times> world" where
  "module_from_bytes e uuid_bytes w =
     (case get_generator e w of
        (Inl ex, w') \<Rightarrow> (Inl ex, w')
      | (Inr g, w') \<Rightarrow> from_bytes g uuid_bytes w')"

subsection \<open>\<^verbatim>\<open>get_generator\<close> run by several threads\<close>

text \<open>
  The body of \<^verbatim>\<open>get_generator\<close> holds no lock, so threads running it interleave between
  its statements. A thread is at the test \<^verbatim>\<open>_default_generator is None\<close>, at the
  assignment \<^verbatim>\<open>_default_generator = UuidGenerator()\<close>, at \<^verbatim>\<open>return _default_generator\<close>, or
  has finished (raising, or returning what the global held: \<open>None\<close> is Python's \<^verbatim>\<open>None\<close>).
  Each statement is taken as one atomic step; the interpreter may switch threads more
  often than that, never less.
\<close>

datatype pc =
    At_test
  | At_assign
  | At_return
  | Finished "py_exception + UuidGenerator option"

definition thread_step :: "env \<Rightarrow> world \<Rightarrow> pc \<Rightarrow> world \<times> pc" where
  "thread_step e w p =
     (case p of
        At_test \<Rightarrow> (w, if default_generator w = None then At_assign else At_return)
      | At_assign \<Rightarrow>
          (case UuidGenerator_init e None w of
             (Inl ex, w') \<Rightarrow> (w', Finished (Inl ex))
           | (Inr g, w') \<Rightarrow> (w'\<lparr>default_generator := Some g\<rparr>, At_return))
      | At_return \<Rightarrow> (w, Finished (Inr (default_generator w)))
      | Finished r \<Rightarrow> (w, Finished r))"

text \<open>A schedule names, step by step, the thread that runs next.\<close>

fun run :: "env \<Rightarrow> nat list \<Rightarrow> world \<times> pc list \<Rightarrow> world \<times> pc list" where
  "run e [] c = c"
| "run e (t # ts) (w, ps) =
     (if t < length ps
      then (let (w', p') = thread_step e w (ps ! t) in run e ts (w', ps[t := p']))
      else run e ts (w, ps))"

subsection \<open>The canonical string form, as a predicate\<close>

text \<open>
  A string of the form \<^verbatim>\<open>[0-9a-f]{8}-[0-9a-f]{4}-[0-9a-f]{4}-[0-9a-f]{4}-[0-9a-f]{12}\<close>:
  groups of lowercase hexadecimal digits of the given lengths, a hyphen between
  neighbours.
\<close>

definition is_lower_hex :: "char \<Rightarrow> bool" where
  "is_lower_hex c = (c \<in> set ''0123456789abcdef'')"

fun hex_groups :: "nat list \<Rightarrow> string \<Rightarrow> bool" where
  "hex_groups [] s = (s = [])"
| "hex_groups [n] s = (length s = n \<and> list_all is_lower_hex s)"
| "hex_groups (n # m # ns) s =
     (n < length s \<and> list_all is_lower_hex (take n s) \<and> s ! n = CHR ''-''
      \<and> hex_groups (m # ns) (drop (Suc n) s))"

definition canonical_form :: "string \<Rightarrow> bool" where
  "canonical_form s = (length s = 36 \<and> hex_groups [8, 4, 4, 4, 12] s)"

subsection \<open>Auxiliary notions for the statements\<close>

text \<open>Whether a result is a raised \<^verbatim>\<open>InvalidParameterError\<close>.\<close>

fun is_InvalidParameterError :: "py_exception + 'a \<Rightarrow> bool" where
  "is_InvalidParameterError (Inl (InvalidParameterError c)) = True"
| "is_InvalidParameterError r = False"

text \<open>\<open>k\<close> calls of \<^verbatim>\<open>get_generator\<close> in a row, with their results in order.\<close>

fun get_generator_repeat ::
  "env \<Rightarrow> nat \<Rightarrow> world \<Rightarrow> (py_exception + UuidGenerator) list \<times> world" where
  "get_generator_repeat e 0 w = ([], w)"
| "get_generator_repeat e (Suc k) w =
     (let (r, w') = get_generator e w;
          (rs, w'') = get_generator_repeat e k w'
      in (r # rs, w''))"

text \<open>
  Concrete inputs: a freshly imported module, a Linux machine on which the release build
  of the library sits where \<^verbatim>\<open>_find_library\<close> looks first, a Linux machine on which the
  library was never built, two generator objects, and the test vector of the
  specification
  (\<^verbatim>\<open>00 00 00 00 00 00 40 00 80 00 00 00 00 00 00 00\<close>).
\<close>

definition initial_world :: world where
  "initial_world = \<lparr>default_generator = None, constructed = 0, lib_calls = []\<rparr>"

definition release_path :: path where
  "release_path = In_module_dir ''../../target/release/libuuid_generator.so''"

definition linux_env :: env where
  "linux_env = \<lparr>platform = ''linux'', path_exists = (\<lambda>p. p = release_path),
                 cdll_loads = (\<lambda>p. True), cdll_exports = (\<lambda>p name. True)\<rparr>"

definition unbuilt_env :: env where
  "unbuilt_env = \<lparr>platform = ''linux'', path_exists = (\<lambda>p. False),
                   cdll_loads = (\<lambda>p. True), cdll_exports = (\<lambda>p name. True)\<rparr>"

definition generator0 :: UuidGenerator where
  "generator0 = \<lparr>obj_id = 0, lib = release_path\<rparr>"

definition generator1 :: UuidGenerator where
  "generator1 = \<lparr>obj_id = 1, lib = release_path\<rparr>"

definition test_vector :: "u8 list" where
  "test_vector = [0, 0, 0, 0, 0, 0, 0x40, 0, 0x80, 0, 0, 0, 0, 0, 0, 0]"

section \<open>Facts about the boundary and the library model\<close>

lemma array16_id: "length bs = 16 \<Longrightarrow> c_uint8_array16 bs = Inr bs"
  by (simp add: c_uint8_array16_def)

lemma version_bits: "drop_bit 4 (((x::u8) AND 0x0F) OR 0x40) = 4"
  by (rule bit_word_eqI) (auto simp add: bit_simps)

lemma variant_bits: "drop_bit 6 (((x::u8) AND 0x3F) OR 0x80) = 2"
  by (rule bit_word_eqI) (auto simp add: bit_simps)

lemma length_impose: "length (impose_version_variant b) = length b"
  by (simp add: impose_version_variant_def)

lemma impose_6: "6 < length b \<Longrightarrow> impose_version_variant b ! 6 = (b ! 6 AND 0x0F) OR 0x40"
  by (simp add: impose_version_variant_def)

lemma impose_8: "8 < length b \<Longrightarrow> impose_version_variant b ! 8 = (b ! 8 AND 0x3F) OR 0x80"
  by (simp add: impose_version_variant_def)

text \<open>The imposition touches the bytes 6 and 8 only.\<close>

lemma impose_other:
  "i \<noteq> 6 \<Longrightarrow> i \<noteq> 8 \<Longrightarrow> impose_version_variant b ! i = b ! i"
  by (simp add: impose_version_variant_def)

text \<open>The test vectors of the specification, on the library model.\<close>

lemma test_vector_length: "length test_vector = 16"
  by (simp add: test_vector_def)

lemma get_info_test_vector: "uuid_get_info test_vector = (0, 4, 2)"
  by (simp add: uuid_get_info_def test_vector_def)

lemma to_string_capacity_10: "uuid_to_string b out 10 = (3, out)"
  by (simp add: uuid_to_string_def)

lemma test_vector_string:
  "canonical_string test_vector = ''00000000-0000-4000-8000-000000000000''"
  by (simp add: canonical_string_def test_vector_def hex_string_def hex_byte_def hex_digit_def)

subsection \<open>Hexadecimal digits\<close>

lemma hex_table: "list_all is_lower_hex ''0123456789abcdef''"
  by (simp add: is_lower_hex_def)

lemma hex_digit_lower: "unat n < 16 \<Longrightarrow> is_lower_hex (hex_digit n)"
  using hex_table by (simp add: list_all_length hex_digit_def)

lemma unat_high_nibble: "unat (drop_bit 4 (b::u8)) < 16"
proof -
  have "unat b < 256"
    using unsigned_less [of b] by simp
  then have "unat b div 16 < 16"
    by arith
  then show ?thesis
    by (simp add: unat_drop_bit_eq drop_bit_eq_div unat_div)
qed

lemma unat_low_nibble: "unat ((b::u8) AND 0x0F) < 16"
proof -
  have "b AND 0x0F \<le> 0x0F"
    by (rule word_and_le1)
  then have "unat (b AND 0x0F) \<le> 15"
    by (simp add: word_le_nat_alt)
  then show ?thesis
    by simp
qed

lemma hex_byte_lower: "list_all is_lower_hex (hex_byte b)"
  by (simp add: hex_byte_def hex_digit_lower unat_high_nibble unat_low_nibble)

lemma length_hex_string: "length (hex_string bs) = 2 * length bs"
  by (induction bs) (simp_all add: hex_string_def hex_byte_def)

lemma hex_string_lower: "list_all is_lower_hex (hex_string bs)"
  by (induction bs) (simp_all add: hex_string_def hex_byte_lower)

lemma hex_groups_last: "length h = n \<Longrightarrow> list_all is_lower_hex h \<Longrightarrow> hex_groups [n] h"
  by simp

lemma hex_groups_cons:
  "length h = n \<Longrightarrow> list_all is_lower_hex h \<Longrightarrow> hex_groups (m # ns) rest \<Longrightarrow>
     hex_groups (n # m # ns) (h @ CHR ''-'' # rest)"
  by (simp add: nth_append)

lemma canonical_string_form:
  assumes "length b = 16"
  shows "canonical_form (canonical_string b)"
proof -
  have len: "length (canonical_string b) = 36"
    using assms by (simp add: canonical_string_def length_hex_string)
  have "hex_groups [8, 4, 4, 4, 12] (canonical_string b)"
    unfolding canonical_string_def append_Cons append_Nil
    using assms
    by (intro hex_groups_cons hex_groups_last hex_string_lower)
       (simp_all add: length_hex_string)
  with len show ?thesis
    by (simp add: canonical_form_def)
qed

lemma lower_hex_ascii: "is_lower_hex c \<Longrightarrow> c \<noteq> NUL \<and> (of_char c :: nat) < 128"
  by (auto simp add: is_lower_hex_def NUL_def)

lemma hex_string_ascii:
  "list_all (\<lambda>c. c \<noteq> NUL) (hex_string bs)
   \<and> list_all (\<lambda>c. (of_char c :: nat) < 128) (hex_string bs)"
  using hex_string_lower [of bs] lower_hex_ascii by (auto simp add: list_all_iff)

lemma canonical_string_ascii:
  "list_all (\<lambda>c. c \<noteq> NUL) (canonical_string b)
   \<and> list_all (\<lambda>c. (of_char c :: nat) < 128) (canonical_string b)"
  using hex_string_ascii by (simp add: canonical_string_def NUL_def)

lemma buffer_value_terminated:
  "list_all (\<lambda>c. c \<noteq> NUL) s \<Longrightarrow> buffer_value (s @ NUL # rest) = s"
  by (simp add: buffer_value_def list_all_iff)

text \<open>What \<^verbatim>\<open>__str__\<close> does on a well-formed object: one library call, one string.\<close>

lemma Uuid_str_wellformed:
  "length (bytes u) = 16 \<Longrightarrow>
     Uuid_str u w = (Inr (canonical_string (bytes u)), called (Call_to_string (bytes u) 37) w)"
  by (simp add: Uuid_str_def array16_id create_string_buffer_def uuid_to_string_def
      check_error_def buffer_value_terminated canonical_string_ascii decode_utf8_def)

section \<open>Generated identifiers\<close>

lemma generate_Inr:
  "generate g rnd w = (Inr u, w') \<Longrightarrow>
     \<exists>r. rnd = EntropyBytes r
        \<and> u = \<lparr>bytes = impose_version_variant (map r [0..<16]), generator = g\<rparr>"
  by (cases rnd)
     (auto simp add: generate_def uuid_generate_v4_def check_error_def dict_get_def
        ERROR_CODES_def Uuid_init_def length_impose)

lemma generate_succeeds:
  "generate g (EntropyBytes r) w =
     (Inr \<lparr>bytes = impose_version_variant (map r [0..<16]), generator = g\<rparr>,
      called Call_generate_v4 w)"
  by (simp add: generate_def uuid_generate_v4_def check_error_def Uuid_init_def length_impose)

lemma generate_entropy_failure:
  "generate g EntropyFailure w = (Inl (EntropyError 1), called Call_generate_v4 w)"
  by (simp add: generate_def uuid_generate_v4_def check_error_def dict_get_def ERROR_CODES_def)

lemma version_generated:
  "fst (version \<lparr>bytes = impose_version_variant (map r [0..<16]), generator = g\<rparr> w) = Inr 4"
  by (simp add: version_def array16_id length_impose uuid_get_info_def check_error_def
      impose_6 version_bits)

lemma variant_generated:
  "fst (variant \<lparr>bytes = impose_version_variant (map r [0..<16]), generator = g\<rparr> w) = Inr 2"
  by (simp add: variant_def array16_id length_impose uuid_get_info_def check_error_def
      impose_8 variant_bits)

lemma uuid4_Inr:
  "uuid4 e rnd w = (Inr u, w') \<Longrightarrow> \<exists>g w1. generate g rnd w1 = (Inr u, w')"
  by (auto simp add: uuid4_def split: prod.splits sum.splits)

text \<open>
  C1. Every identifier returned by \<^verbatim>\<open>UuidGenerator.generate\<close>, and by the convenience
  function \<^verbatim>\<open>uuid4\<close>, reads back as version 4 and variant 2: \<^verbatim>\<open>Uuid.version()\<close> returns 4
  and \<^verbatim>\<open>Uuid.variant()\<close> returns 2, whatever library calls were made before. And
  \<^verbatim>\<open>generate\<close> does return an identifier whenever the entropy source delivers.
\<close>

theorem generated_version_variant:
  "(generate g rnd w = (Inr u, w') \<longrightarrow>
      fst (version u w1) = Inr 4 \<and> fst (variant u w2) = Inr 2)
   \<and> (uuid4 e rnd w = (Inr u, w') \<longrightarrow>
      fst (version u w1) = Inr 4 \<and> fst (variant u w2) = Inr 2)
   \<and> (\<exists>u0. fst (generate g (EntropyBytes r) w) = Inr u0)"
proof -
  have gen: "fst (version u w1) = Inr 4 \<and> fst (variant u w2) = Inr 2"
    if "generate g' rnd w0 = (Inr u, w')" for g' w0
  proof -
    from generate_Inr [OF that] obtain r'
      where "u = \<lparr>bytes = impose_version_variant (map r' [0..<16]), generator = g'\<rparr>"
      by blast
    then show ?thesis
      by (simp only: version_generated variant_generated)
  qed
  have "\<exists>u0. fst (generate g (EntropyBytes r) w) = Inr u0"
    by (simp add: generate_succeeds)
  with gen uuid4_Inr show ?thesis
    by blast
qed

theorem generated_version_variant_witness:
  "generate generator0 (EntropyBytes (\<lambda>i. 0xFF)) initial_world =
     (Inr \<lparr>bytes = [0xFF, 0xFF, 0xFF, 0xFF, 0xFF, 0xFF, 0x4F, 0xFF,
                     0xBF, 0xFF, 0xFF, 0xFF, 0xFF, 0xFF, 0xFF, 0xFF],
           generator = generator0\<rparr>,
      initial_world\<lparr>lib_calls := [Call_generate_v4]\<rparr>)
   \<and> fst (version \<lparr>bytes = [0xFF, 0xFF, 0xFF, 0xFF, 0xFF, 0xFF, 0x4F, 0xFF,
                              0xBF, 0xFF, 0xFF, 0xFF, 0xFF, 0xFF, 0xFF, 0xFF],
                    generator = generator0\<rparr> initial_world) = Inr 4
   \<and> fst (variant \<lparr>bytes = [0xFF, 0xFF, 0xFF, 0xFF, 0xFF, 0xFF, 0x4F, 0xFF,
                              0xBF, 0xFF, 0xFF, 0xFF, 0xFF, 0xFF, 0xFF, 0xFF],
                    generator = generator0\<rparr> initial_world) = Inr 2"
proof -
  have g: "generate generator0 (EntropyBytes (\<lambda>i. 0xFF)) initial_world =
     (Inr \<lparr>bytes = [0xFF, 0xFF, 0xFF, 0xFF, 0xFF, 0xFF, 0x4F, 0xFF,
                     0xBF, 0xFF, 0xFF, 0xFF, 0xFF, 0xFF, 0xFF, 0xFF],
           generator = generator0\<rparr>,
      initial_world\<lparr>lib_calls := [Call_generate_v4]\<rparr>)"
    by (simp add: generate_def uuid_generate_v4_def impose_version_variant_def check_error_def
        Uuid_init_def called_def initial_world_def upt_rec [of _ "numeral n" for n])
  from generated_version_variant [THEN conjunct1, rule_format, OF g] g
  show ?thesis
    by blast
qed

section \<open>Rendering\<close>

text \<open>
  C2. For every 16-byte identifier, \<^verbatim>\<open>Uuid.__str__\<close> (which calls \<^verbatim>\<open>uuid_to_string\<close> with a
  37-byte buffer) succeeds and yields exactly 36 characters: groups of eight, four,
  four, four and twelve lowercase hexadecimal digits separated by hyphens. The library
  call itself fails with status 3, which \<^verbatim>\<open>_check_error\<close> raises as
  \<^verbatim>\<open>BufferTooSmallError\<close>, exactly when the stated capacity is below 37, and then leaves
  the buffer as it was; with a capacity of 37 or more it succeeds and the buffer holds
  a string of that form.
\<close>

theorem str_canonical_or_buffer_too_small:
  assumes "length (bytes u) = 16"
  shows "(\<exists>s. fst (Uuid_str u w) = Inr s \<and> length s = 36 \<and> canonical_form s)
     \<and> (cap < 37 \<longrightarrow>
          uuid_to_string (bytes u) out cap = (3, out)
          \<and> check_error (fst (uuid_to_string (bytes u) out cap)) = Inl (BufferTooSmallError 3))
     \<and> (37 \<le> cap \<longrightarrow>
          fst (uuid_to_string (bytes u) out cap) = 0
          \<and> canonical_form (buffer_value (snd (uuid_to_string (bytes u) out cap))))"
proof -
  have form: "canonical_form (canonical_string (bytes u))"
    using assms by (rule canonical_string_form)
  then have len: "length (canonical_string (bytes u)) = 36"
    by (simp add: canonical_form_def)
  have str: "fst (Uuid_str u w) = Inr (canonical_string (bytes u))"
    using assms by (simp add: Uuid_str_wellformed)
  have small: "uuid_to_string (bytes u) out cap = (3, out)
      \<and> check_error (fst (uuid_to_string (bytes u) out cap)) = Inl (BufferTooSmallError 3)"
    if "cap < 37"
    using that by (simp add: uuid_to_string_def check_error_def dict_get_def ERROR_CODES_def)
  have large: "fst (uuid_to_string (bytes u) out cap) = 0
      \<and> canonical_form (buffer_value (snd (uuid_to_string (bytes u) out cap)))"
    if "37 \<le> cap"
    using that form
    by (simp add: uuid_to_string_def buffer_value_terminated canonical_string_ascii)
  from str len form small large show ?thesis
    by blast
qed

theorem str_canonical_or_buffer_too_small_witness:
  "length (bytes \<lparr>bytes = test_vector, generator = generator0\<rparr>) = 16
   \<and> (\<exists>s. fst (Uuid_str \<lparr>bytes = test_vector, generator = generator0\<rparr> initial_world) = Inr s
          \<and> length s = 36 \<and> canonical_form s)
   \<and> uuid_to_string test_vector (create_string_buffer 10) 10 = (3, create_string_buffer 10)
   \<and> canonical_form (buffer_value (snd (uuid_to_string test_vector (create_string_buffer 40) 40)))"
proof -
  have l: "length (bytes \<lparr>bytes = test_vector, generator = generator0\<rparr>) = 16"
    by (simp add: test_vector_length)
  have b: "bytes \<lparr>bytes = test_vector, generator = generator0\<rparr> = test_vector"
    by simp
  have c10: "(10::nat) < 37" and c40: "(37::nat) \<le> 40"
    by simp_all
  note small = str_canonical_or_buffer_too_small
    [OF l, of initial_world 10 "create_string_buffer 10", unfolded b]
  note large = str_canonical_or_buffer_too_small
    [OF l, of initial_world 40 "create_string_buffer 40", unfolded b]
  from l small large c10 c40 show ?thesis
    by blast
qed

text \<open>
  C7. Rendering is deterministic: two \<^verbatim>\<open>Uuid\<close> objects holding the same 16 bytes render,
  through \<^verbatim>\<open>Uuid.__str__\<close>, to the same 36-character string, whichever generators they
  belong to and whatever happened before the calls.
\<close>

theorem str_deterministic:
  assumes "length (bytes a) = 16" and "bytes a = bytes b"
  shows "fst (Uuid_str a w1) = fst (Uuid_str b w2)
     \<and> (\<exists>s. fst (Uuid_str a w1) = Inr s \<and> length s = 36)"
proof -
  have "length (bytes b) = 16"
    using assms by simp
  then have "fst (Uuid_str b w2) = Inr (canonical_string (bytes b))"
    by (simp add: Uuid_str_wellformed)
  moreover have "fst (Uuid_str a w1) = Inr (canonical_string (bytes a))"
    using assms(1) by (simp add: Uuid_str_wellformed)
  moreover have "length (canonical_string (bytes a)) = 36"
    using canonical_string_form [OF assms(1)] by (simp add: canonical_form_def)
  ultimately show ?thesis
    using assms(2) by simp
qed

theorem str_deterministic_witness:
  "fst (Uuid_str \<lparr>bytes = test_vector, generator = generator0\<rparr> initial_world) =
     fst (Uuid_str \<lparr>bytes = test_vector, generator = generator1\<rparr>
            (initial_world\<lparr>lib_calls := [Call_generate_v4]\<rparr>))
   \<and> (\<exists>s. fst (Uuid_str \<lparr>bytes = test_vector, generator = generator0\<rparr> initial_world) = Inr s
          \<and> length s = 36)"
proof -
  have l: "length (bytes \<lparr>bytes = test_vector, generator = generator0\<rparr>) = 16"
    by (simp add: test_vector_length)
  have e: "bytes \<lparr>bytes = test_vector, generator = generator0\<rparr> =
           bytes \<lparr>bytes = test_vector, generator = generator1\<rparr>"
    by simp
  from str_deterministic [OF l e] show ?thesis .
qed

section \<open>Construction from bytes\<close>

text \<open>
  C3. Round trip: for every bytes value \<open>b\<close> of length exactly 16, \<^verbatim>\<open>from_bytes(b).bytes\<close>
  is \<open>b\<close>. Construction succeeds, changes nothing else, and stores the bytes as they
  are: no version or variant bit is imposed.
\<close>

theorem from_bytes_roundtrip:
  "length b = 16 \<Longrightarrow> \<exists>u. from_bytes g b w = (Inr u, w) \<and> bytes u = b"
  by (simp add: from_bytes_def Uuid_init_def)

theorem from_bytes_roundtrip_witness:
  "length (replicate 16 (0xFF::u8)) = 16
   \<and> (\<exists>u. from_bytes generator0 (replicate 16 0xFF) initial_world = (Inr u, initial_world)
          \<and> bytes u = replicate 16 0xFF)"
proof -
  have l: "length (replicate 16 (0xFF::u8)) = 16"
    by simp
  from l from_bytes_roundtrip [OF l] show ?thesis
    by blast
qed

section \<open>Equality and hashing\<close>

lemma nth_all16:
  "length (a::'a list) = 16 \<Longrightarrow> length b = 16 \<Longrightarrow>
     list_all (\<lambda>i. a ! i = b ! i) [0..<16] = (a = b)"
  by (auto simp add: list_all_iff list_eq_iff_nth_eq)

lemma Uuid_eq_wellformed:
  "length (bytes a) = 16 \<Longrightarrow> length (bytes b) = 16 \<Longrightarrow>
     Uuid_eq a (PyUuid b) w =
       (Inr (bytes a = bytes b), called (Call_compare (bytes a) (bytes b)) w)"
  by (simp add: Uuid_eq_def array16_id uuid_compare_def check_error_def nth_all16)

text \<open>
  C4. Equality is exact 16-byte equality: for well-formed \<^verbatim>\<open>Uuid\<close> values \<open>a\<close> and \<open>b\<close>,
  \<^verbatim>\<open>a == b\<close> is true exactly when the bytes are equal, that is when all 16 bytes are
  pairwise equal; in particular \<^verbatim>\<open>a == a\<close> is true, and \<^verbatim>\<open>a == b\<close> is false when the two
  differ in a byte.
\<close>

theorem eq_is_byte_equality:
  assumes "length (bytes a) = 16" and "length (bytes b) = 16"
  shows "fst (Uuid_eq a (PyUuid b) w) = Inr (bytes a = bytes b)
     \<and> fst (Uuid_eq a (PyUuid a) w) = Inr True
     \<and> (bytes a = bytes b) = (\<forall>i<16. bytes a ! i = bytes b ! i)"
proof -
  have "(bytes a = bytes b) = (\<forall>i<16. bytes a ! i = bytes b ! i)"
    using assms by (simp add: list_eq_iff_nth_eq)
  then show ?thesis
    using assms by (simp add: Uuid_eq_wellformed)
qed

theorem eq_is_byte_equality_witness:
  "fst (Uuid_eq \<lparr>bytes = test_vector, generator = generator0\<rparr>
          (PyUuid \<lparr>bytes = replicate 16 0, generator = generator0\<rparr>) initial_world) = Inr False
   \<and> fst (Uuid_eq \<lparr>bytes = test_vector, generator = generator0\<rparr>
          (PyUuid \<lparr>bytes = test_vector, generator = generator0\<rparr>) initial_world) = Inr True"
proof -
  have l1: "length (bytes \<lparr>bytes = test_vector, generator = generator0\<rparr>) = 16"
    by (simp add: test_vector_length)
  have l2: "length (bytes \<lparr>bytes = replicate 16 (0::u8), generator = generator0\<rparr>) = 16"
    by simp
  have six: "test_vector ! 6 = (0x40::u8)"
    by (simp add: test_vector_def)
  have ne: "test_vector \<noteq> replicate 16 (0::u8)"
  proof
    assume "test_vector = replicate 16 (0::u8)"
    then have "test_vector ! 6 = replicate 16 (0::u8) ! 6"
      by (rule arg_cong)
    with six show False
      by simp
  qed
  from eq_is_byte_equality [OF l1 l2, of initial_world] ne show ?thesis
    by simp
qed

text \<open>
  C9. Comparing a \<^verbatim>\<open>Uuid\<close> with a value that is not a \<^verbatim>\<open>Uuid\<close> instance returns \<^verbatim>\<open>False\<close>:
  no exception is raised and the library comparison is not called (the record of
  library calls is as before).
\<close>

theorem eq_non_Uuid_False:
  "\<not> isinstance_Uuid other \<Longrightarrow> Uuid_eq self other w = (Inr False, w)"
  by (cases other) (simp_all add: Uuid_eq_def)

theorem eq_non_Uuid_False_witness:
  "\<not> isinstance_Uuid (PyBytes test_vector)
   \<and> Uuid_eq \<lparr>bytes = test_vector, generator = generator0\<rparr> (PyBytes test_vector) initial_world =
       (Inr False, initial_world)"
proof -
  have n: "\<not> isinstance_Uuid (PyBytes test_vector)"
    by simp
  from n eq_non_Uuid_False [OF n] show ?thesis
    by blast
qed

text \<open>
  C10. The hash is consistent with byte equality: two \<^verbatim>\<open>Uuid\<close> values constructed from
  the same bytes, by whichever generators, have the same \<^verbatim>\<open>__hash__\<close>, which is the
  built-in hash of the bytes and of nothing else.
\<close>

theorem hash_depends_on_bytes_only:
  "Uuid_init bs g1 = Inr a \<Longrightarrow> Uuid_init bs g2 = Inr b \<Longrightarrow>
     Uuid_hash h a = Uuid_hash h b \<and> Uuid_hash h a = h bs"
  by (auto simp add: Uuid_init_def Uuid_hash_def split: if_splits)

theorem hash_depends_on_bytes_only_witness:
  "Uuid_init test_vector generator0 = Inr \<lparr>bytes = test_vector, generator = generator0\<rparr>
   \<and> Uuid_init test_vector generator1 = Inr \<lparr>bytes = test_vector, generator = generator1\<rparr>
   \<and> Uuid_hash (\<lambda>bs. int (length bs)) \<lparr>bytes = test_vector, generator = generator0\<rparr> =
     Uuid_hash (\<lambda>bs. int (length bs)) \<lparr>bytes = test_vector, generator = generator1\<rparr>"
proof -
  have i0: "Uuid_init test_vector generator0 = Inr \<lparr>bytes = test_vector, generator = generator0\<rparr>"
    by (simp add: Uuid_init_def test_vector_length)
  have i1: "Uuid_init test_vector generator1 = Inr \<lparr>bytes = test_vector, generator = generator1\<rparr>"
    by (simp add: Uuid_init_def test_vector_length)
  from i0 i1 hash_depends_on_bytes_only [OF i0 i1] show ?thesis
    by blast
qed

section \<open>The default generator\<close>

lemma get_generator_Some:
  "default_generator w = Some g \<Longrightarrow> get_generator e w = (Inr g, w)"
  by (simp add: get_generator_def)

lemma get_generator_repeat_Some:
  "default_generator w = Some g \<Longrightarrow> get_generator_repeat e k w = (replicate k (Inr g), w)"
  by (induction k) (simp_all add: get_generator_Some)

lemma UuidGenerator_init_Inr:
  "UuidGenerator_init e p w = (Inr g, w1) \<Longrightarrow>
     obj_id g = constructed w \<and> w1 = w\<lparr>constructed := Suc (constructed w)\<rparr>"
  by (auto simp add: UuidGenerator_init_def split: sum.splits if_splits)

lemma UuidGenerator_init_Inl:
  "UuidGenerator_init e p w = (Inl ex, w1) \<Longrightarrow>
     w1 = w \<and> \<not> is_InvalidParameterError (Inl ex :: py_exception + 'a)"
  by (auto simp add: UuidGenerator_init_def find_library_def setup_functions_def
      split: sum.splits if_splits option.splits)

lemma init_linux:
  "UuidGenerator_init linux_env None initial_world =
     (Inr generator0, initial_world\<lparr>constructed := 1\<rparr>)"
  by (simp add: UuidGenerator_init_def find_library_def setup_functions_def possible_paths_def
      linux_env_def release_path_def generator0_def initial_world_def)

lemma init_unbuilt:
  "UuidGenerator_init unbuilt_env None w = (Inl (FileNotFoundError library_not_found), w)"
  by (simp add: UuidGenerator_init_def find_library_def possible_paths_def unbuilt_env_def)

text \<open>
  One thread running alone through the three statements does what \<^verbatim>\<open>get_generator\<close>
  does: the thread model and the sequential function are the same code.
\<close>

lemma single_thread_is_get_generator:
  "run e [0, 0, 0] (w, [At_test]) =
     (snd (get_generator e w), [Finished (map_sum id Some (fst (get_generator e w)))])"
  by (auto simp add: thread_step_def get_generator_def
      split: option.splits prod.splits sum.splits)

text \<open>
  C8, as stated, does not hold under concurrent first use. Two threads call
  \<^verbatim>\<open>get_generator\<close> on a fresh module; both pass the test before either assigns. Two
  generators are constructed, the first caller gets one and the second caller the
  other, and the global ends up holding the second.
\<close>

theorem get_generator_concurrent_first_use:
  "run linux_env [0, 1, 0, 0, 1, 1] (initial_world, [At_test, At_test]) =
     (\<lparr>default_generator = Some generator1, constructed = 2, lib_calls = []\<rparr>,
      [Finished (Inr (Some generator0)), Finished (Inr (Some generator1))])"
  by (simp add: thread_step_def UuidGenerator_init_def find_library_def setup_functions_def
      possible_paths_def linux_env_def release_path_def generator0_def generator1_def
      initial_world_def)

text \<open>
  C8, amended. The default generator is initialised lazily: called by one thread at a
  time, the first call to \<^verbatim>\<open>get_generator\<close> whose construction succeeds constructs one
  \<^verbatim>\<open>UuidGenerator\<close> and stores it, and every later call returns that same instance and
  constructs nothing, whatever the environment has become.
\<close>

theorem get_generator_lazy_singleton:
  assumes "default_generator w = None"
    and "UuidGenerator_init e None w = (Inr g, w1)"
  shows "get_generator e w = (Inr g, w1\<lparr>default_generator := Some g\<rparr>)
     \<and> constructed (snd (get_generator e w)) = Suc (constructed w)
     \<and> get_generator_repeat e' k (snd (get_generator e w)) =
         (replicate k (Inr g), snd (get_generator e w))"
proof -
  have first: "get_generator e w = (Inr g, w1\<lparr>default_generator := Some g\<rparr>)"
    using assms by (simp add: get_generator_def)
  have "constructed w1 = Suc (constructed w)"
    using UuidGenerator_init_Inr [OF assms(2)] by simp
  then show ?thesis
    by (simp add: first get_generator_repeat_Some)
qed

theorem get_generator_lazy_singleton_witness:
  "default_generator initial_world = None
   \<and> UuidGenerator_init linux_env None initial_world =
       (Inr generator0, initial_world\<lparr>constructed := 1\<rparr>)
   \<and> get_generator linux_env initial_world =
       (Inr generator0, initial_world\<lparr>constructed := 1, default_generator := Some generator0\<rparr>)
   \<and> constructed (snd (get_generator linux_env initial_world)) = Suc 0
   \<and> get_generator_repeat linux_env 3 (snd (get_generator linux_env initial_world)) =
       ([Inr generator0, Inr generator0, Inr generator0],
        snd (get_generator linux_env initial_world))"
proof -
  have none: "default_generator initial_world = None"
    by (simp add: initial_world_def)
  have c0: "constructed initial_world = 0"
    by (simp add: initial_world_def)
  have three: "replicate 3 x = [x, x, x]" for x :: "py_exception + UuidGenerator"
    by (simp add: numeral_3_eq_3)
  note t = get_generator_lazy_singleton [OF none init_linux, of linux_env 3, unfolded c0 three]
  from t none init_linux show ?thesis
    by blast
qed

section \<open>Input of the wrong length\<close>

lemma get_generator_lib_calls: "lib_calls (snd (get_generator e w)) = lib_calls w"
  by (auto simp add: get_generator_def split: option.splits prod.splits sum.splits
      dest!: UuidGenerator_init_Inr UuidGenerator_init_Inl)

lemma get_generator_not_InvalidParameterError:
  "\<not> is_InvalidParameterError (fst (get_generator e w))"
  by (auto simp add: get_generator_def split: option.splits prod.splits sum.splits
      dest!: UuidGenerator_init_Inl)

lemma is_InvalidParameterError_Inl:
  "is_InvalidParameterError (Inl ex :: py_exception + 'a) =
     is_InvalidParameterError (Inl ex :: py_exception + 'b)"
  by (cases ex) simp_all

lemma module_from_bytes_wrong_length:
  "length b \<noteq> 16 \<Longrightarrow>
     module_from_bytes e b w =
       (case fst (get_generator e w) of
          Inl ex \<Rightarrow> Inl ex
        | Inr g \<Rightarrow> Inl (ValueError ''UUID bytes must be exactly 16 bytes''),
        snd (get_generator e w))"
  by (simp add: module_from_bytes_def from_bytes_def split: prod.splits sum.splits)

text \<open>
  C5, as stated, does not hold. A 15-byte value handed to \<^verbatim>\<open>UuidGenerator.from_bytes\<close>
  and a 17-byte value handed to the \<^verbatim>\<open>Uuid\<close> constructor do not raise
  \<^verbatim>\<open>InvalidParameterError\<close>. The module-level \<^verbatim>\<open>from_bytes\<close>, called with 15 bytes on a
  fresh module, has constructed and stored the default generator by the time it raises
  \<^verbatim>\<open>ValueError\<close>; where the library was never built it raises \<^verbatim>\<open>FileNotFoundError\<close> and
  never looks at the length.
\<close>

theorem wrong_length_not_InvalidParameterError:
  "\<not> is_InvalidParameterError (fst (from_bytes generator0 (replicate 15 0) initial_world))
   \<and> \<not> is_InvalidParameterError (Uuid_init (replicate 17 0) generator0)
   \<and> module_from_bytes linux_env (replicate 15 0) initial_world =
       (Inl (ValueError ''UUID bytes must be exactly 16 bytes''),
        \<lparr>default_generator = Some generator0, constructed = 1, lib_calls = []\<rparr>)
   \<and> module_from_bytes unbuilt_env (replicate 15 0) initial_world =
       (Inl (FileNotFoundError library_not_found), initial_world)"
proof -
  have none: "default_generator initial_world = None"
    by (simp add: initial_world_def)
  have built: "get_generator linux_env initial_world =
      (Inr generator0, \<lparr>default_generator = Some generator0, constructed = 1, lib_calls = []\<rparr>)"
    by (simp add: get_generator_def none init_linux) (simp add: initial_world_def)
  have unbuilt: "get_generator unbuilt_env initial_world =
      (Inl (FileNotFoundError library_not_found), initial_world)"
    by (simp add: get_generator_def none init_unbuilt)
  show ?thesis
    by (simp add: from_bytes_def Uuid_init_def module_from_bytes_def built unbuilt)
qed

text \<open>
  C5, amended. For every bytes value whose length is not exactly 16,
  \<^verbatim>\<open>UuidGenerator.from_bytes\<close> and the \<^verbatim>\<open>Uuid\<close> constructor raise Python's built-in
  \<^verbatim>\<open>ValueError\<close> (``UUID bytes must be exactly 16 bytes'') and nothing else happens. The
  module-level \<^verbatim>\<open>from_bytes\<close> runs \<^verbatim>\<open>get_generator()\<close> first: it raises what that call
  raises, and otherwise the same \<^verbatim>\<open>ValueError\<close>, in the state \<^verbatim>\<open>get_generator()\<close> left
  (unchanged when a default generator was stored already). No entry point returns a
  \<^verbatim>\<open>Uuid\<close> for such a value, makes a library call or raises \<^verbatim>\<open>InvalidParameterError\<close>.
\<close>

theorem wrong_length_raises_ValueError:
  assumes "length b \<noteq> 16"
  shows "from_bytes g b w = (Inl (ValueError ''UUID bytes must be exactly 16 bytes''), w)
     \<and> Uuid_init b g = Inl (ValueError ''UUID bytes must be exactly 16 bytes'')
     \<and> module_from_bytes e b w =
         (case fst (get_generator e w) of
            Inl ex \<Rightarrow> Inl ex
          | Inr g' \<Rightarrow> Inl (ValueError ''UUID bytes must be exactly 16 bytes''),
          snd (get_generator e w))
     \<and> (default_generator w = Some g \<longrightarrow>
          module_from_bytes e b w = (Inl (ValueError ''UUID bytes must be exactly 16 bytes''), w))
     \<and> lib_calls (snd (module_from_bytes e b w)) = lib_calls w
     \<and> \<not> is_InvalidParameterError (fst (module_from_bytes e b w))
     \<and> (\<forall>u. fst (module_from_bytes e b w) \<noteq> Inr u)"
proof -
  note m = module_from_bytes_wrong_length [OF assms, of e w]
  have direct: "from_bytes g b w = (Inl (ValueError ''UUID bytes must be exactly 16 bytes''), w)
     \<and> Uuid_init b g = Inl (ValueError ''UUID bytes must be exactly 16 bytes'')"
    using assms by (simp add: from_bytes_def Uuid_init_def)
  have stored: "module_from_bytes e b w =
      (Inl (ValueError ''UUID bytes must be exactly 16 bytes''), w)"
    if "default_generator w = Some g"
    using that by (simp add: m get_generator_Some)
  have calls: "lib_calls (snd (module_from_bytes e b w)) = lib_calls w"
    by (simp add: m get_generator_lib_calls)
  have cls: "\<not> is_InvalidParameterError (fst (module_from_bytes e b w))"
  proof (cases "fst (get_generator e w)")
    case (Inl ex)
    with get_generator_not_InvalidParameterError [of e w]
    have "\<not> is_InvalidParameterError (Inl ex :: py_exception + UuidGenerator)"
      by simp
    then have "\<not> is_InvalidParameterError (Inl ex :: py_exception + Uuid)"
      by (simp add: is_InvalidParameterError_Inl [where 'a = Uuid and 'b = UuidGenerator])
    with Inl show ?thesis
      by (simp add: m)
  next
    case (Inr g')
    then show ?thesis
      by (simp add: m)
  qed
  have none: "\<forall>u. fst (module_from_bytes e b w) \<noteq> Inr u"
    by (simp add: m split: sum.splits)
  from m direct stored calls cls none show ?thesis
    by blast
qed

theorem wrong_length_raises_ValueError_witness:
  "length (replicate 15 (0::u8)) \<noteq> 16
   \<and> from_bytes generator0 (replicate 15 0) initial_world =
       (Inl (ValueError ''UUID bytes must be exactly 16 bytes''), initial_world)
   \<and> Uuid_init (replicate 15 0) generator0 =
       Inl (ValueError ''UUID bytes must be exactly 16 bytes'')
   \<and> lib_calls (snd (module_from_bytes linux_env (replicate 15 0) initial_world)) =
       lib_calls initial_world
   \<and> \<not> is_InvalidParameterError (fst (module_from_bytes linux_env (replicate 15 0) initial_world))"
proof -
  have l: "length (replicate 15 (0::u8)) \<noteq> 16"
    by simp
  from l wrong_length_raises_ValueError [OF l, of generator0 initial_world linux_env]
  show ?thesis
    by blast
qed

section \<open>Status codes and exceptions\<close>

text \<open>
  C6. For every status code \<open>c\<close>, \<^verbatim>\<open>_check_error\<close> raises nothing when \<open>c = 0\<close>,
  \<^verbatim>\<open>EntropyError\<close> when \<open>c = 1\<close>, \<^verbatim>\<open>InvalidParameterError\<close> when \<open>c = 2\<close>,
  \<^verbatim>\<open>BufferTooSmallError\<close> when \<open>c = 3\<close>, and \<^verbatim>\<open>UnknownError\<close> when \<open>c = 99\<close> or
  \<open>c\<close> is any other nonzero value; so a nonzero code always raises.
\<close>

theorem check_error_taxonomy:
  "check_error 0 = Inr ()
   \<and> check_error 1 = Inl (EntropyError 1)
   \<and> check_error 2 = Inl (InvalidParameterError 2)
   \<and> check_error 3 = Inl (BufferTooSmallError 3)
   \<and> check_error 99 = Inl (UnknownError 99)
   \<and> (c \<noteq> 0 \<and> c \<noteq> 1 \<and> c \<noteq> 2 \<and> c \<noteq> 3 \<longrightarrow> check_error c = Inl (UnknownError c))
   \<and> (c \<noteq> 0 \<longrightarrow> (\<exists>e. check_error c = Inl e))"
  by (simp add: check_error_def dict_get_def ERROR_CODES_def)

theorem check_error_taxonomy_witness:
  "check_error 7 = Inl (UnknownError 7) \<and> (\<exists>e. check_error 7 = Inl e)
   \<and> check_error (- 1) = Inl (UnknownError (- 1))"
  using check_error_taxonomy [of 7] check_error_taxonomy [of "- 1"] by simp

end
